theory Spec2Isabelle
  imports Main
begin

section \<open>Python strings\<close>

text \<open>
  A Python \<open>str\<close> is a sequence of code points. The model is a \<^typ>\<open>string\<close> whose
  characters are the code points below 256 (Latin-1), which covers every literal of
  \<open>ETLSQL.py\<close> that the program compares against: the accented \<open>i\<close> of the fourth
  accepted "true" literal is code point 237, the character \<open>CHR 0xED\<close>.
\<close>

definition lower_char :: "char \<Rightarrow> char" where
  \<comment> \<open>\<open>str.lower\<close> on one code point below 256: A-Z and the accented capitals
      192-222 (without the multiplication sign 215) move up by 32.\<close>
  "lower_char c =
     (let n = (of_char c :: nat)
      in if (65 \<le> n \<and> n \<le> 90) \<or> (192 \<le> n \<and> n \<le> 222 \<and> n \<noteq> 215)
         then char_of (n + 32) else c)"

definition lower :: "string \<Rightarrow> string" where
  "lower s = map lower_char s"

definition isspace :: "char \<Rightarrow> bool" where
  \<comment> \<open>the code points below 256 that \<open>str.strip()\<close> removes\<close>
  "isspace c =
     (let n = (of_char c :: nat)
      in (9 \<le> n \<and> n \<le> 13) \<or> (28 \<le> n \<and> n \<le> 32) \<or> n = 133 \<or> n = 160)"

definition strip :: "string \<Rightarrow> string" where
  "strip s = rev (dropWhile isspace (rev (dropWhile isspace s)))"

fun join :: "string \<Rightarrow> string list \<Rightarrow> string" where
  "join sep [] = []"
| "join sep [x] = x"
| "join sep (x # y # ys) = x @ sep @ join sep (y # ys)"

definition es_decimal :: "char \<Rightarrow> bool" where
  \<comment> \<open>the \<open>\d\<close> of a regular expression on a code point below 256: the digits
      \<open>0\<close> to \<open>9\<close>, the only decimal digits among them. On the code points from 256
      on, which a \<^typ>\<open>string\<close> does not have, \<open>\d\<close> also matches the decimal digits
      of other scripts.\<close>
  "es_decimal c = (let n = (of_char c :: nat) in 48 \<le> n \<and> n \<le> 57)"

definition digit_val :: "char \<Rightarrow> nat" where
  "digit_val c = (of_char c :: nat) - 48"

definition digit_char :: "nat \<Rightarrow> char" where
  "digit_char d = char_of (48 + d)"

function str_nat :: "nat \<Rightarrow> string" where
  "str_nat n = (if n < 10 then [digit_char n] else str_nat (n div 10) @ [digit_char (n mod 10)])"
  by pat_completeness auto
termination
  by (relation "measure id") auto

declare str_nat.simps [simp del]

definition str_int :: "int \<Rightarrow> string" where
  \<comment> \<open>\<open>str(n)\<close> of a Python int\<close>
  "str_int i = (if i < 0 then CHR ''-'' # str_nat (nat (- i)) else str_nat (nat i))"

definition pad2 :: "nat \<Rightarrow> string" where
  \<comment> \<open>\<open>%02d\<close>\<close>
  "pad2 n = (if n < 10 then CHR ''0'' # str_nat n else str_nat n)"

definition pad4 :: "nat \<Rightarrow> string" where
  \<comment> \<open>\<open>%04d\<close>\<close>
  "pad4 n = replicate (4 - length (str_nat n)) (CHR ''0'') @ str_nat n"

definition pad6 :: "nat \<Rightarrow> string" where
  \<comment> \<open>\<open>%06d\<close>\<close>
  "pad6 n = replicate (6 - length (str_nat n)) (CHR ''0'') @ str_nat n"


section \<open>Dates and times\<close>

record datetime =
  year :: nat
  month :: nat
  day :: nat
  hour :: nat
  minute :: nat
  second :: nat
  microsecond :: nat

definition is_leap :: "nat \<Rightarrow> bool" where
  "is_leap y = (y mod 4 = 0 \<and> (y mod 100 \<noteq> 0 \<or> y mod 400 = 0))"

definition days_in_month :: "nat \<Rightarrow> nat \<Rightarrow> nat" where
  "days_in_month y m =
     (if m = 2 then (if is_leap y then 29 else 28)
      else if m = 4 \<or> m = 6 \<or> m = 9 \<or> m = 11 then 30 else 31)"

definition str_datetime :: "datetime \<Rightarrow> string" where
  \<comment> \<open>\<open>str(d)\<close>, that is \<open>d.isoformat(sep=' ')\<close>: the microseconds are printed only
      when they are not zero\<close>
  "str_datetime d =
     pad4 (year d) @ ''-'' @ pad2 (month d) @ ''-'' @ pad2 (day d) @ '' '' @
     pad2 (hour d) @ '':'' @ pad2 (minute d) @ '':'' @ pad2 (second d) @
     (if microsecond d = 0 then [] else ''.'' @ pad6 (microsecond d))"

definition strftime_log :: "datetime \<Rightarrow> string" where
  \<comment> \<open>\<open>d.strftime('%Y-%m-%d %H:%M:%S')\<close>, for a year of four digits\<close>
  "strftime_log d =
     pad4 (year d) @ ''-'' @ pad2 (month d) @ ''-'' @ pad2 (day d) @ '' '' @
     pad2 (hour d) @ '':'' @ pad2 (minute d) @ '':'' @ pad2 (second d)"

definition timestamp_str :: "datetime \<Rightarrow> string" where
  \<comment> \<open>\<open>timestamp_str()\<close> at the clock reading \<open>d\<close>: \<open>strftime("%Y%m%d_%H%M%S")\<close>\<close>
  "timestamp_str d =
     pad4 (year d) @ pad2 (month d) @ pad2 (day d) @ ''_'' @
     pad2 (hour d) @ pad2 (minute d) @ pad2 (second d)"


section \<open>Exceptions and values\<close>

datatype excepcion =
    ValueError string   \<comment> \<open>raised by the program itself, with its message\<close>
  | DriverError string  \<comment> \<open>raised by the pyodbc cursor or connection; the string is \<open>str(e)\<close>\<close>

definition str_exc :: "excepcion \<Rightarrow> string" where
  \<comment> \<open>\<open>str(e)\<close>\<close>
  "str_exc e = (case e of ValueError m \<Rightarrow> m | DriverError m \<Rightarrow> m)"

datatype fallo =
    Lanzada excepcion   \<comment> \<open>an exception the program raises itself\<close>
  | ValueError_int      \<comment> \<open>the \<open>ValueError\<close> of \<open>int(entrada)\<close>\<close>
  | ValueError_float    \<comment> \<open>the \<open>ValueError\<close> of \<open>float(entrada)\<close>\<close>
  | ValueError_strptime \<comment> \<open>the \<open>ValueError\<close> of \<open>datetime.strptime\<close>\<close>

datatype 'f valor =
    VInt int
  | VFloat 'f
  | VStr string
  | VDateTime datetime


section \<open>strptime with the format \<open>%Y-%m-%d\<close>\<close>

text \<open>
  \<open>datetime.datetime.strptime(entrada, "%Y-%m-%d")\<close> compiles the format to the regular
  expression
  \<^verbatim>\<open>(?P<Y>\d\d\d\d)-(?P<m>1[0-2]|0[1-9]|[1-9])-(?P<d>3[0-1]|[1-2]\d|0[1-9]|[1-9]| [1-9])\<close>,
  matches it at the start of the input, raises \<open>ValueError\<close> when there is no match or
  when input remains after the match, and then builds the date, which raises
  \<open>ValueError\<close> for year 0 and for a day the month does not have. The alternatives of
  a group are tried in order, and the group for the month is followed by a literal
  \<open>-\<close>, so an alternative of the month counts only when a \<open>-\<close> follows it.

  The model is of \<open>strptime\<close> on the inputs that a \<^typ>\<open>string\<close> can hold, the
  texts of code points below 256. There \<open>\d\<close> is a digit from \<open>0\<close> to \<open>9\<close>. An input
  with a code point from 256 on is outside the model: for such inputs \<open>strptime\<close>
  accepts in addition the decimal digits of other scripts where the expression has
  \<open>\d\<close>, in the year and in the second place of a day from 10 to 29.
\<close>

definition re_Y :: "string \<Rightarrow> (nat \<times> string) option" where
  "re_Y s =
     (case s of
        a # b # c # d # r \<Rightarrow>
          if es_decimal a \<and> es_decimal b \<and> es_decimal c \<and> es_decimal d
          then Some (1000 * digit_val a + 100 * digit_val b + 10 * digit_val c + digit_val d, r)
          else None
      | _ \<Rightarrow> None)"

definition re_m :: "string \<Rightarrow> (nat \<times> string) list" where
  \<comment> \<open>the matches of \<open>1[0-2]|0[1-9]|[1-9]\<close> at the start of \<open>s\<close>, in the order tried\<close>
  "re_m s =
     (case s of
        a # b # r \<Rightarrow>
          (if a = CHR ''1'' \<and> b \<in> set ''012'' then [(10 + digit_val b, r)] else []) @
          (if a = CHR ''0'' \<and> b \<in> set ''123456789'' then [(digit_val b, r)] else [])
      | _ \<Rightarrow> []) @
     (case s of
        a # r \<Rightarrow> (if a \<in> set ''123456789'' then [(digit_val a, r)] else [])
      | [] \<Rightarrow> [])"

definition re_d :: "string \<Rightarrow> (nat \<times> string) list" where
  \<comment> \<open>the matches of \<open>3[0-1]|[1-2]\d|0[1-9]|[1-9]| [1-9]\<close> at the start of \<open>s\<close>, in
      the order tried\<close>
  "re_d s =
     (case s of
        a # b # r \<Rightarrow>
          (if a = CHR ''3'' \<and> b \<in> set ''01'' then [(30 + digit_val b, r)] else []) @
          (if a \<in> set ''12'' \<and> es_decimal b then [(10 * digit_val a + digit_val b, r)] else []) @
          (if a = CHR ''0'' \<and> b \<in> set ''123456789'' then [(digit_val b, r)] else [])
      | _ \<Rightarrow> []) @
     (case s of
        a # r \<Rightarrow> (if a \<in> set ''123456789'' then [(digit_val a, r)] else [])
      | [] \<Rightarrow> []) @
     (case s of
        a # b # r \<Rightarrow>
          (if a = CHR '' '' \<and> b \<in> set ''123456789'' then [(digit_val b, r)] else [])
      | _ \<Rightarrow> [])"

definition guion :: "string \<Rightarrow> string option" where
  \<comment> \<open>the literal \<open>-\<close> of the format\<close>
  "guion s = (case s of c # r \<Rightarrow> if c = CHR ''-'' then Some r else None | [] \<Rightarrow> None)"

definition strptime_Ymd :: "string \<Rightarrow> fallo + datetime" where
  "strptime_Ymd s =
     (case re_Y s of
        None \<Rightarrow> Inl ValueError_strptime
      | Some (y, r1) \<Rightarrow>
          (case guion r1 of
             None \<Rightarrow> Inl ValueError_strptime
           | Some r2 \<Rightarrow>
               (case filter (\<lambda>(m, r3). guion r3 \<noteq> None) (re_m r2) of
                  [] \<Rightarrow> Inl ValueError_strptime
                | (m, r3) # _ \<Rightarrow>
                    (case re_d (tl r3) of
                       [] \<Rightarrow> Inl ValueError_strptime
                     | (d, r4) # _ \<Rightarrow>
                         if r4 \<noteq> [] then Inl ValueError_strptime
                         else if y = 0 \<or> days_in_month y m < d then Inl ValueError_strptime
                         else Inr \<lparr>year = y, month = m, day = d, hour = 0, minute = 0,
                                   second = 0, microsecond = 0\<rparr>))))"






section \<open>Field validation of the manual load\<close>

text \<open>
  \<open>int\<close> and \<open>float\<close> are Python's own parsers; the program only calls them. They are
  taken as parameters: \<open>py_int s\<close> is \<open>None\<close> where \<open>int(s)\<close> raises \<open>ValueError\<close>, and
  likewise \<open>py_float\<close>; \<open>str_float\<close> is \<open>str\<close> on a float.
\<close>

record 'f python =
  py_int :: "string \<Rightarrow> int option"
  py_float :: "string \<Rightarrow> 'f option"
  str_float :: "'f \<Rightarrow> string"

definition si_acentuado :: string where
  \<comment> \<open>the literal \<open>"s\<iacute>"\<close>: \<open>s\<close> followed by code point 237\<close>
  "si_acentuado = [CHR ''s'', CHR 0xED]"

definition mensaje_bit :: string where
  "mensaje_bit = ''Debe ingresar 1/0 o true/false''"

definition validar :: "('f, 'z) python_scheme \<Rightarrow> string \<Rightarrow> string \<Rightarrow> fallo + 'f valor" where
  \<comment> \<open>the body of the \<open>try\<close> of \<open>carga_manual\<close> up to the assignment of \<open>valor\<close>;
      \<open>tipo_sql\<close> is \<open>tipos[col].lower()\<close>\<close>
  "validar py tipo_sql entrada =
     (if tipo_sql \<in> set [''int'', ''bigint'', ''smallint'', ''tinyint''] then
        (case py_int py entrada of None \<Rightarrow> Inl ValueError_int | Some n \<Rightarrow> Inr (VInt n))
      else if tipo_sql \<in> set [''float'', ''real'', ''decimal'', ''numeric'', ''money'', ''smallmoney''] then
        (case py_float py entrada of None \<Rightarrow> Inl ValueError_float | Some x \<Rightarrow> Inr (VFloat x))
      else if tipo_sql \<in> set [''bit''] then
        (if lower entrada \<in> set [''1'', ''true'', si_acentuado, ''si''] then Inr (VInt 1)
         else if lower entrada \<in> set [''0'', ''false'', ''no''] then Inr (VInt 0)
         else Inl (Lanzada (ValueError mensaje_bit)))
      else if tipo_sql \<in> set [''date'', ''datetime'', ''smalldatetime'', ''datetime2''] then
        (case strptime_Ymd entrada of Inl e \<Rightarrow> Inl e | Inr d \<Rightarrow> Inr (VDateTime d))
      else Inr (VStr entrada))"

definition str_valor :: "('f, 'z) python_scheme \<Rightarrow> 'f valor \<Rightarrow> string" where
  \<comment> \<open>\<open>str(valor)\<close>\<close>
  "str_valor py v =
     (case v of
        VInt n \<Rightarrow> str_int n
      | VFloat x \<Rightarrow> str_float py x
      | VStr s \<Rightarrow> s
      | VDateTime d \<Rightarrow> str_datetime d)"


section \<open>The database cursor\<close>

text \<open>
  The pyodbc cursor and its connection are outside the program. A database is a state
  of any type \<open>'db\<close>; \<open>execute\<close> and \<open>commit\<close> answer with the message of the exception
  they raise, if they raise one, and with the next state. \<open>format_exc\<close> is
  \<open>traceback.format_exc()\<close> inside the handler of the given exception, and \<open>now n\<close> is
  the \<open>n\<close>-th reading of \<open>datetime.datetime.now()\<close> in a run.
\<close>

record ('f, 'db) entorno = "'f python" +
  execute :: "'db \<Rightarrow> string \<Rightarrow> 'f valor list \<Rightarrow> string option \<times> 'db"
  commit :: "'db \<Rightarrow> string option \<times> 'db"
  format_exc :: "excepcion \<Rightarrow> string"
  now :: "nat \<Rightarrow> datetime"

datatype 'f llamada =
    Execute string "'f valor list" bool   \<comment> \<open>statement, parameters, whether it returned\<close>
  | Commit bool                            \<comment> \<open>whether it returned\<close>

record ('f, 'db) cursor =
  db :: 'db
  llamadas :: "'f llamada list"   \<comment> \<open>the calls made so far, oldest first\<close>

definition cursor_execute ::
  "('f, 'db) entorno \<Rightarrow> ('f, 'db) cursor \<Rightarrow> string \<Rightarrow> 'f valor list
     \<Rightarrow> excepcion option \<times> ('f, 'db) cursor" where
  "cursor_execute env c sentencia params =
     (case execute env (db c) sentencia params of
        (err, d) \<Rightarrow>
          (map_option DriverError err,
           c\<lparr>db := d, llamadas := llamadas c @ [Execute sentencia params (err = None)]\<rparr>))"

definition connection_commit ::
  "('f, 'db) entorno \<Rightarrow> ('f, 'db) cursor \<Rightarrow> excepcion option \<times> ('f, 'db) cursor" where
  "connection_commit env c =
     (case commit env (db c) of
        (err, d) \<Rightarrow>
          (map_option DriverError err,
           c\<lparr>db := d, llamadas := llamadas c @ [Commit (err = None)]\<rparr>))"





section \<open>Log files\<close>

datatype pyobj = OInt int | OStr string

type_synonym dict = "string \<rightharpoonup> pyobj"

datatype archivo =
    ArchivoTexto string string                         \<comment> \<open>file name, text\<close>
  | ArchivoCsv string "string list" "string list list" \<comment> \<open>file name, header, rows\<close>

definition write_text_log :: "string \<Rightarrow> string \<Rightarrow> archivo" where
  "write_text_log path text = ArchivoTexto path text"

definition csv_celda :: "pyobj option \<Rightarrow> string" where
  \<comment> \<open>what \<open>DictWriter\<close> writes for \<open>rowdict.get(key, "")\<close>: \<open>str\<close> of the value\<close>
  "csv_celda x = (case x of None \<Rightarrow> [] | Some (OInt n) \<Rightarrow> str_int n | Some (OStr s) \<Rightarrow> s)"

definition write_csv :: "string \<Rightarrow> string list \<Rightarrow> dict list \<Rightarrow> archivo" where
  \<comment> \<open>\<open>csv.DictWriter(f, fieldnames=fieldnames, extrasaction='ignore')\<close>: the header,
      then for each dictionary its values under the header's keys\<close>
  "write_csv path fieldnames rows =
     ArchivoCsv path fieldnames (map (\<lambda>r. map (\<lambda>k. csv_celda (r k)) fieldnames) rows)"

definition completar :: "string list \<Rightarrow> dict \<Rightarrow> dict" where
  \<comment> \<open>\<open>{k: r.get(k, "") for k in fieldnames}\<close>\<close>
  "completar fieldnames r =
     map_of (map (\<lambda>k. (k, case r k of None \<Rightarrow> OStr [] | Some v \<Rightarrow> v)) fieldnames)"


section \<open>Load from a file: \<open>carga_por_archivo\<close>\<close>

text \<open>
  The function is modelled from the point where the file is read and the table's
  column names are fetched: \<open>df\<close> is the DataFrame and \<open>columnas_sql\<close> the names from
  \<open>cursor.description\<close>. A DataFrame is its column labels and what \<open>df.iterrows()\<close>
  yields: for each row its index label, an integer, and the row, which has a cell for
  every column label of the frame. A cell is a value, or \<open>None\<close> where \<open>pd.isna\<close> holds.
\<close>

record 'f dataframe =
  columns :: "string list"
  iterrows :: "(int \<times> (string \<Rightarrow> 'f valor option)) list"

definition RangeIndex :: "(string \<Rightarrow> 'f valor option) list \<Rightarrow> (int \<times> (string \<Rightarrow> 'f valor option)) list" where
  \<comment> \<open>the rows under the default index 0, 1, 2, ...\<close>
  "RangeIndex filas = zip (map int [0..<length filas]) filas"

datatype mensaje =
    NoCoinciden          \<comment> \<open>"Las columnas del archivo no coinciden con la tabla."\<close>
  | FaltanEnArchivo      \<comment> \<open>"Faltan en el archivo:"\<close>
  | NoExistenEnTabla     \<comment> \<open>"No existen en la tabla:"\<close>
  | Item string          \<comment> \<open>"  - " and a column name\<close>
  | CorrijaArchivo       \<comment> \<open>"Corrija el archivo y vuelva a intentar."\<close>
  | CargaFinalizada string \<comment> \<open>"Carga finalizada. Resumen guardado en: " and the path\<close>
  | HuboErrores string   \<comment> \<open>"Hubo errores - ver: " and the path\<close>
  | TodasCargadas        \<comment> \<open>"Todas las filas se cargaron correctamente."\<close>
  | IngresoDatos         \<comment> \<open>"--- INGRESO DE DATOS PARA UNA NUEVA FILA ---"\<close>
  | FormatoInvalido string string \<comment> \<open>"Formato invalido para 'col' (tipo). Intente nuevamente."\<close>
  | FilaInsertada        \<comment> \<open>"Fila insertada exitosamente."\<close>
  | ErrorAlInsertar string \<comment> \<open>"Error al insertar fila: " and \<open>str(e)\<close>\<close>
  | LogsGuardados        \<comment> \<open>"Logs guardados en: " and the directory\<close>
  | LogResumen string    \<comment> \<open>" - Resumen: " and the file name\<close>
  | LogInsertadas string \<comment> \<open>" - Filas insertadas: " and the file name\<close>
  | LogErrores string    \<comment> \<open>" - Errores: " and the file name\<close>

definition sin_ejecucion :: "string list \<Rightarrow> string list" where
  \<comment> \<open>\<open>columnas_sql_sin_ejecucion\<close>\<close>
  "sin_ejecucion columnas_sql = filter (\<lambda>col. lower col \<noteq> ''bi_ejecucion'') columnas_sql"

definition columnas_faltantes :: "string list \<Rightarrow> string list \<Rightarrow> string list" where
  "columnas_faltantes columnas_sql columnas_archivo =
     filter (\<lambda>col. col \<notin> set columnas_archivo) (sin_ejecucion columnas_sql)"

definition columnas_sobrantes :: "string list \<Rightarrow> string list \<Rightarrow> string list" where
  "columnas_sobrantes columnas_sql columnas_archivo =
     filter (\<lambda>col. col \<notin> set (sin_ejecucion columnas_sql)) columnas_archivo"

definition aviso_columnas :: "string list \<Rightarrow> string list \<Rightarrow> mensaje list" where
  \<comment> \<open>what is printed when the columns do not match\<close>
  "aviso_columnas faltantes sobrantes =
     [NoCoinciden] @
     (if faltantes \<noteq> [] then FaltanEnArchivo # map Item faltantes else []) @
     (if sobrantes \<noteq> [] then NoExistenEnTabla # map Item sobrantes else []) @
     [CorrijaArchivo]"

definition mensaje_blanco :: "string \<Rightarrow> int \<Rightarrow> string" where
  "mensaje_blanco col row_num =
     ''Campo '' @ [CHR 0x27] @ col @ [CHR 0x27] @ '' en blanco (fila '' @ str_int row_num @ '')''"

fun valores_fila ::
  "string list \<Rightarrow> (string \<Rightarrow> 'f valor option) \<Rightarrow> int \<Rightarrow> excepcion + 'f valor list" where
  "valores_fila [] fila row_num = Inr []"
| "valores_fila (col # cols) fila row_num =
     (case fila col of
        None \<Rightarrow> Inl (ValueError (mensaje_blanco col row_num))
      | Some val \<Rightarrow>
          (case valores_fila cols fila row_num of
             Inl e \<Rightarrow> Inl e
           | Inr valores \<Rightarrow> Inr (val # valores)))"

definition sentencia_archivo :: "string \<Rightarrow> string list \<Rightarrow> string" where
  "sentencia_archivo nombre_tabla cols =
     ''INSERT INTO ['' @ nombre_tabla @ ''] ('' @
     (join '', '' cols @ '', Bi_ejecucion'') @ '') VALUES ('' @
     join '', '' (map (\<lambda>_. ''?'') cols) @ '', GETDATE())''"

definition intentar_fila ::
  "('f, 'db) entorno \<Rightarrow> string \<Rightarrow> string list \<Rightarrow> (string \<Rightarrow> 'f valor option) \<Rightarrow> int
     \<Rightarrow> ('f, 'db) cursor \<Rightarrow> excepcion option \<times> ('f, 'db) cursor" where
  \<comment> \<open>the body of the \<open>try\<close> for one row: the exception it raises, if any\<close>
  "intentar_fila env nombre_tabla cols fila row_num c =
     (case valores_fila cols fila row_num of
        Inl e \<Rightarrow> (Some e, c)
      | Inr valores \<Rightarrow>
          (case cursor_execute env c (sentencia_archivo nombre_tabla cols) valores of
             (Some e, c1) \<Rightarrow> (Some e, c1)
           | (None, c1) \<Rightarrow> connection_commit env c1))"

definition row_data :: "('f, 'z) python_scheme \<Rightarrow> string list \<Rightarrow> (string \<Rightarrow> 'f valor option) \<Rightarrow> dict" where
  "row_data py cols fila =
     map_of (map (\<lambda>col. (col, OStr (case fila col of None \<Rightarrow> [] | Some v \<Rightarrow> str_valor py v))) cols)"

definition registro_error :: "string \<Rightarrow> int \<Rightarrow> string \<Rightarrow> string \<Rightarrow> dict \<Rightarrow> dict" where
  \<comment> \<open>\<open>{clave: n, "error": str(e), "traceback": tb, **datos}\<close>: a key of \<open>datos\<close>
      replaces an earlier one of the same name\<close>
  "registro_error clave n err tb datos =
     [clave \<mapsto> OInt n, ''error'' \<mapsto> OStr err, ''traceback'' \<mapsto> OStr tb] ++ datos"

record ('f, 'db) estado =
  cur :: "('f, 'db) cursor"
  errores :: "dict list"

record ('f, 'db) estado_archivo = "('f, 'db) estado" +
  filas_procesadas :: nat
  filas_cargadas :: nat

definition paso_fila ::
  "('f, 'db) entorno \<Rightarrow> string \<Rightarrow> string list \<Rightarrow> int \<times> (string \<Rightarrow> 'f valor option)
     \<Rightarrow> ('f, 'db) estado_archivo \<Rightarrow> ('f, 'db) estado_archivo" where
  \<comment> \<open>one turn of the loop over \<open>df.iterrows()\<close>\<close>
  "paso_fila env nombre_tabla cols r st =
     (let idx = fst r; fila = snd r;
          st1 = st\<lparr>filas_procesadas := filas_procesadas st + 1\<rparr>;
          row_num = idx + 1
      in case intentar_fila env nombre_tabla cols fila row_num (cur st1) of
           (None, c) \<Rightarrow> st1\<lparr>cur := c, filas_cargadas := filas_cargadas st1 + 1\<rparr>
         | (Some e, c) \<Rightarrow>
             st1\<lparr>cur := c,
                 errores := errores st1 @
                   [registro_error ''row'' row_num (str_exc e) (format_exc env e)
                      (row_data env cols fila)]\<rparr>)"

fun bucle_filas ::
  "('f, 'db) entorno \<Rightarrow> string \<Rightarrow> string list \<Rightarrow> (int \<times> (string \<Rightarrow> 'f valor option)) list
     \<Rightarrow> ('f, 'db) estado_archivo \<Rightarrow> ('f, 'db) estado_archivo" where
  "bucle_filas env nombre_tabla cols [] st = st"
| "bucle_filas env nombre_tabla cols (r # rs) st =
     bucle_filas env nombre_tabla cols rs (paso_fila env nombre_tabla cols r st)"

record ('f, 'db, 'st) resultado =
  final :: "'st option"   \<comment> \<open>the loop's variables at its end; \<open>None\<close> when the function
                              returned before the loop\<close>
  cursor_final :: "('f, 'db) cursor"
  consola :: "mensaje list"
  archivos :: "archivo list"

definition resumen_archivo ::
  "datetime \<Rightarrow> string \<Rightarrow> string \<Rightarrow> string \<Rightarrow> ('f, 'db) estado_archivo \<Rightarrow> string" where
  "resumen_archivo fecha nombre_bd nombre_tabla archivo st =
     join [CHR 0x0A]
       [''Fecha: '' @ strftime_log fecha,
        ''Base de datos: '' @ nombre_bd,
        ''Tabla: '' @ nombre_tabla,
        ''Archivo procesado: '' @ archivo,
        ''Filas procesadas: '' @ str_int (int (filas_procesadas st)),
        ''Filas cargadas correctamente: '' @ str_int (int (filas_cargadas st)),
        ''Filas con error: '' @ str_int (int (length (errores st)))]"

definition carga_por_archivo ::
  "('f, 'db) entorno \<Rightarrow> ('f, 'db) cursor \<Rightarrow> string \<Rightarrow> string \<Rightarrow> string \<Rightarrow> 'f dataframe
     \<Rightarrow> string list \<Rightarrow> ('f, 'db, ('f, 'db) estado_archivo) resultado" where
  "carga_por_archivo env c nombre_bd nombre_tabla archivo df columnas_sql =
     (let columnas_sql_sin_ejecucion = sin_ejecucion columnas_sql;
          columnas_archivo = columns df;
          faltantes = columnas_faltantes columnas_sql columnas_archivo;
          sobrantes = columnas_sobrantes columnas_sql columnas_archivo
      in if faltantes \<noteq> [] \<or> sobrantes \<noteq> [] then
           \<lparr>final = None, cursor_final = c,
            consola = aviso_columnas faltantes sobrantes, archivos = []\<rparr>
         else
           let ts = timestamp_str (now env 0);
               summary_path = ''log_file_'' @ nombre_tabla @ ''_'' @ ts @ ''_summary.txt'';
               errors_csv = ''log_file_'' @ nombre_tabla @ ''_'' @ ts @ ''_errors.csv'';
               st = bucle_filas env nombre_tabla columnas_sql_sin_ejecucion (iterrows df)
                      \<lparr>cur = c, errores = [], filas_procesadas = 0, filas_cargadas = 0\<rparr>;
               summary_text = resumen_archivo (now env 1) nombre_bd nombre_tabla archivo st;
               fieldnames = [''row'', ''error'', ''traceback''] @ columnas_sql_sin_ejecucion
           in \<lparr>final = Some st, cursor_final = cur st,
               consola = CargaFinalizada summary_path #
                 (if errores st \<noteq> [] then [HuboErrores errors_csv] else [TodasCargadas]),
               archivos = write_text_log summary_path summary_text #
                 (if errores st \<noteq> []
                  then [write_csv errors_csv fieldnames (map (completar fieldnames) (errores st))]
                  else [])\<rparr>)"


section \<open>Manual load: \<open>carga_manual\<close>\<close>

text \<open>
  The function is modelled from the point where the schema is fetched: \<open>esquema\<close> is
  the list of pairs (column name, type name) of \<open>cursor.fetchall()\<close>. The operator's
  input is the list of the lines that \<open>input()\<close> returns, in order; at its end
  \<open>input()\<close> raises \<open>EOFError\<close>, which no handler of the function catches. The prompt of
  \<open>input()\<close> is not recorded.
\<close>

definition tipos :: "(string \<times> string) list \<Rightarrow> string \<Rightarrow> string" where
  \<comment> \<open>\<open>tipos[col]\<close> for the dictionary \<open>{col[0]: col[1] for col in esquema}\<close>; it is
      read at the names of \<open>esquema\<close> only, where it is defined\<close>
  "tipos esquema col = (case map_of (rev esquema) col of Some t \<Rightarrow> t | None \<Rightarrow> [])"

fun pedir_campo ::
  "('f, 'z) python_scheme \<Rightarrow> string \<Rightarrow> string \<Rightarrow> string list
     \<Rightarrow> ('f valor \<times> string list \<times> mensaje list) option" where
  \<comment> \<open>the \<open>while True\<close> that asks for one field: the value, the input left and what
      was printed; \<open>None\<close> when the input ends first\<close>
  "pedir_campo py col tipo [] = None"
| "pedir_campo py col tipo (l # ls) =
     (case validar py (lower tipo) (strip l) of
        Inr valor \<Rightarrow> Some (valor, ls, [])
      | Inl ex \<Rightarrow>
          (case pedir_campo py col tipo ls of
             None \<Rightarrow> None
           | Some (valor, resto, ms) \<Rightarrow> Some (valor, resto, FormatoInvalido col tipo # ms)))"

definition valor_ejecucion :: "string \<Rightarrow> datetime \<Rightarrow> 'f valor" where
  \<comment> \<open>the value of the column \<open>Bi_ejecucion\<close> for the clock reading \<open>ahora\<close>;
      \<open>tipo_sql\<close> is \<open>tipos[col].lower()\<close>\<close>
  "valor_ejecucion tipo_sql ahora =
     (if tipo_sql \<in> set [''datetime'', ''smalldatetime'', ''datetime2'', ''date'']
      then VDateTime ahora
      else VStr (strftime_log ahora @ '' Python''))"

fun construir_fila ::
  "('f, 'db) entorno \<Rightarrow> (string \<times> string) list \<Rightarrow> string list
     \<Rightarrow> 'f valor list \<times> dict \<Rightarrow> string list \<Rightarrow> nat \<Rightarrow> mensaje list
     \<Rightarrow> ('f valor list \<times> dict \<times> string list \<times> nat \<times> mensaje list) option" where
  \<comment> \<open>the \<open>for col in columnas\<close> of one attempt, over \<open>fila\<close> and
      \<open>fila_dict_for_log\<close>, the input left, the number of clock readings so far and
      what was printed\<close>
  "construir_fila env esquema [] acc entradas lecturas impreso =
     Some (fst acc, snd acc, entradas, lecturas, impreso)"
| "construir_fila env esquema (col # cols) acc entradas lecturas impreso =
     (if lower col = ''bi_ejecucion'' then
        (let v = valor_ejecucion (lower (tipos esquema col)) (now env lecturas)
         in construir_fila env esquema cols
              (fst acc @ [v], (snd acc)(col \<mapsto> OStr (str_valor env v)))
              entradas (lecturas + 1) impreso)
      else
        (case pedir_campo env col (tipos esquema col) entradas of
           None \<Rightarrow> None
         | Some (valor, resto, ms) \<Rightarrow>
             construir_fila env esquema cols
               (fst acc @ [valor], (snd acc)(col \<mapsto> OStr (str_valor env valor)))
               resto lecturas (impreso @ ms)))"

record ('f, 'db) estado_manual = "('f, 'db) estado" +
  lecturas :: nat                    \<comment> \<open>clock readings made so far\<close>
  impreso :: "mensaje list"
  attempt_counter :: nat
  filas_insertadas :: nat
  filas_insertadas_data :: "dict list"

definition sentencia_manual :: "string \<Rightarrow> string list \<Rightarrow> string" where
  "sentencia_manual nombre_tabla columnas =
     ''INSERT INTO ['' @ nombre_tabla @ ''] VALUES ('' @
     join '', '' (map (\<lambda>_. ''?'') columnas) @ '')''"

definition intentar_insercion ::
  "('f, 'db) entorno \<Rightarrow> string \<Rightarrow> string list \<Rightarrow> 'f valor list \<Rightarrow> ('f, 'db) cursor
     \<Rightarrow> excepcion option \<times> ('f, 'db) cursor" where
  \<comment> \<open>\<open>cursor.execute(sentencia, fila)\<close> and \<open>cursor.connection.commit()\<close> inside the
      \<open>try\<close>: the exception raised, if any\<close>
  "intentar_insercion env nombre_tabla columnas fila c =
     (case cursor_execute env c (sentencia_manual nombre_tabla columnas) fila of
        (Some e, c1) \<Rightarrow> (Some e, c1)
      | (None, c1) \<Rightarrow> connection_commit env c1)"

definition insertar_fila ::
  "('f, 'db) entorno \<Rightarrow> string \<Rightarrow> string list \<Rightarrow> 'f valor list \<Rightarrow> dict
     \<Rightarrow> ('f, 'db) estado_manual \<Rightarrow> ('f, 'db) estado_manual" where
  "insertar_fila env nombre_tabla columnas fila fila_dict_for_log st =
     (case intentar_insercion env nombre_tabla columnas fila (cur st) of
        (None, c) \<Rightarrow>
          st\<lparr>cur := c,
             filas_insertadas := filas_insertadas st + 1,
             filas_insertadas_data := filas_insertadas_data st @ [fila_dict_for_log],
             impreso := impreso st @ [FilaInsertada]\<rparr>
      | (Some e, c) \<Rightarrow>
          st\<lparr>cur := c,
             errores := errores st @
               [registro_error ''attempt'' (int (attempt_counter st)) (str_exc e)
                  (format_exc env e) fila_dict_for_log],
             impreso := impreso st @ [ErrorAlInsertar (str_exc e)]\<rparr>)"

lemma pedir_campo_resto:
  "pedir_campo py col tipo entradas = Some (v, resto, ms) \<Longrightarrow> length resto < length entradas"
proof (induction entradas arbitrary: v resto ms)
  case Nil
  then show ?case by simp
next
  case (Cons l ls)
  then show ?case
    by (cases "validar py (lower tipo) (strip l)")
       (fastforce split: option.splits)+
qed

lemma construir_fila_resto:
  "construir_fila env esquema cols acc entradas n ms = Some (fila, d, resto, n', ms')
     \<Longrightarrow> length resto \<le> length entradas"
proof (induction cols arbitrary: acc entradas n ms)
  case Nil
  then show ?case by simp
next
  case (Cons col cols)
  show ?case
  proof (cases "lower col = ''bi_ejecucion''")
    case True
    with Cons.prems Cons.IH show ?thesis by (simp add: Let_def)
  next
    case False
    with Cons.prems obtain valor r ms1 where
      p: "pedir_campo env col (tipos esquema col) entradas = Some (valor, r, ms1)" and
      c: "construir_fila env esquema cols
            (fst acc @ [valor], (snd acc)(col \<mapsto> OStr (str_valor env valor))) r n (ms @ ms1)
          = Some (fila, d, resto, n', ms')"
      by (auto split: option.splits)
    from Cons.IH [OF c] pedir_campo_resto [OF p] show ?thesis by simp
  qed
qed

function bucle_manual ::
  "('f, 'db) entorno \<Rightarrow> (string \<times> string) list \<Rightarrow> string \<Rightarrow> string list
     \<Rightarrow> ('f, 'db) estado_manual \<Rightarrow> ('f, 'db) cursor + ('f, 'db) estado_manual" where
  \<comment> \<open>the outer \<open>while True\<close>; \<open>Inl c\<close> when \<open>EOFError\<close> leaves the function, with the
      cursor as it is then\<close>
  "bucle_manual env esquema nombre_tabla entradas st =
     (case construir_fila env esquema (map fst esquema) ([], Map.empty) entradas
             (lecturas st) (impreso st @ [IngresoDatos]) of
        None \<Rightarrow> Inl (cur st)
      | Some (fila, fila_dict_for_log, resto, n, ms) \<Rightarrow>
          (case resto of
             [] \<Rightarrow>
               Inl (cur (insertar_fila env nombre_tabla (map fst esquema) fila fila_dict_for_log
                      (st\<lparr>lecturas := n, impreso := ms,
                          attempt_counter := attempt_counter st + 1\<rparr>)))
           | l # ls \<Rightarrow>
               (let st1 = insertar_fila env nombre_tabla (map fst esquema) fila fila_dict_for_log
                            (st\<lparr>lecturas := n, impreso := ms,
                                attempt_counter := attempt_counter st + 1\<rparr>)
                in if lower (strip l) \<noteq> ''s'' then Inr st1
                   else bucle_manual env esquema nombre_tabla ls st1)))"
  by pat_completeness auto
termination
proof (relation "measure (\<lambda>(env, esquema, nombre_tabla, entradas, st). length entradas)")
  show "wf (measure (\<lambda>(env :: ('f, 'db) entorno, esquema :: (string \<times> string) list,
                         nombre_tabla :: string, entradas :: string list,
                         st :: ('f, 'db) estado_manual). length entradas))"
    by simp
next
  fix env :: "('f, 'db) entorno" and esquema :: "(string \<times> string) list"
    and nombre_tabla :: string and entradas :: "string list"
    and st st1 :: "('f, 'db) estado_manual"
    and x2 fila y d ya resto yb n ms l ls
  assume "construir_fila env esquema (map fst esquema) ([], Map.empty) entradas
            (lecturas st) (impreso st @ [IngresoDatos]) = Some x2"
    and "(fila, y) = x2" and "(d, ya) = y" and "(resto, yb) = ya" and "(n, ms) = yb"
    and "resto = l # ls"
  then have "construir_fila env esquema (map fst esquema) ([], Map.empty) entradas
            (lecturas st) (impreso st @ [IngresoDatos]) = Some (fila, d, l # ls, n, ms)"
    by simp
  from construir_fila_resto [OF this]
  show "((env, esquema, nombre_tabla, ls, st1), (env, esquema, nombre_tabla, entradas, st))
          \<in> measure (\<lambda>(env, esquema, nombre_tabla, entradas, st). length entradas)"
    by simp
qed

declare bucle_manual.simps [simp del]

definition resumen_manual ::
  "datetime \<Rightarrow> string \<Rightarrow> string \<Rightarrow> ('f, 'db) estado_manual \<Rightarrow> string" where
  "resumen_manual fecha nombre_bd nombre_tabla st =
     join [CHR 0x0A]
       [''Fecha: '' @ strftime_log fecha,
        ''Base de datos: '' @ nombre_bd,
        ''Tabla: '' @ nombre_tabla,
        ''Intentos totales: '' @ str_int (int (attempt_counter st)),
        ''Filas insertadas correctamente: '' @ str_int (int (filas_insertadas st)),
        ''Filas con error: '' @ str_int (int (length (errores st)))]"

definition carga_manual ::
  "('f, 'db) entorno \<Rightarrow> ('f, 'db) cursor \<Rightarrow> string \<Rightarrow> string \<Rightarrow> (string \<times> string) list
     \<Rightarrow> string list
     \<Rightarrow> ('f, 'db) cursor + ('f, 'db, ('f, 'db) estado_manual) resultado" where
  "carga_manual env c nombre_bd nombre_tabla esquema entradas =
     (let columnas = map fst esquema;
          ts = timestamp_str (now env 0);
          summary_path = ''log_manual_'' @ nombre_tabla @ ''_'' @ ts @ ''_summary.txt'';
          inserted_csv = ''log_manual_'' @ nombre_tabla @ ''_'' @ ts @ ''_inserted.csv'';
          errors_csv = ''log_manual_'' @ nombre_tabla @ ''_'' @ ts @ ''_errors.csv''
      in case bucle_manual env esquema nombre_tabla entradas
                \<lparr>cur = c, errores = [], lecturas = 1, impreso = [], attempt_counter = 0,
                 filas_insertadas = 0, filas_insertadas_data = []\<rparr> of
           Inl c1 \<Rightarrow> Inl c1
         | Inr st \<Rightarrow>
             Inr \<lparr>final = Some st, cursor_final = cur st,
                  consola = impreso st @ [LogsGuardados, LogResumen summary_path] @
                    (if filas_insertadas_data st \<noteq> [] then [LogInsertadas inserted_csv] else []) @
                    (if errores st \<noteq> [] then [LogErrores errors_csv] else []),
                  archivos =
                    [write_text_log summary_path
                       (resumen_manual (now env (lecturas st)) nombre_bd nombre_tabla st)] @
                    (if filas_insertadas_data st \<noteq> []
                     then [write_csv inserted_csv columnas
                             (map (completar columnas) (filas_insertadas_data st))]
                     else []) @
                    (if errores st \<noteq> []
                     then [write_csv errors_csv ([''attempt'', ''error'', ''traceback''] @ columnas)
                             (map (completar ([''attempt'', ''error'', ''traceback''] @ columnas))
                                (errores st))]
                     else [])\<rparr>)"


section \<open>A transactional database and example runs\<close>

text \<open>
  A database that keeps the statements it has made durable and the statements of the
  open transaction apart: \<open>execute\<close> adds a statement to the open transaction unless
  \<open>rechaza\<close> gives a message for it, and \<open>commit\<close> makes the open transaction durable.
\<close>

record 'f base =
  confirmadas :: "(string \<times> 'f valor list) list"
  pendientes :: "(string \<times> 'f valor list) list"

definition execute_tx ::
  "('f base \<Rightarrow> string \<Rightarrow> 'f valor list \<Rightarrow> string option)
     \<Rightarrow> 'f base \<Rightarrow> string \<Rightarrow> 'f valor list \<Rightarrow> string option \<times> 'f base" where
  "execute_tx rechaza b sentencia params =
     (case rechaza b sentencia params of
        Some m \<Rightarrow> (Some m, b)
      | None \<Rightarrow> (None, b\<lparr>pendientes := pendientes b @ [(sentencia, params)]\<rparr>))"

definition commit_tx :: "'f base \<Rightarrow> string option \<times> 'f base" where
  "commit_tx b = (None, \<lparr>confirmadas = confirmadas b @ pendientes b, pendientes = []\<rparr>)"

definition entorno_tx ::
  "('f base \<Rightarrow> string \<Rightarrow> 'f valor list \<Rightarrow> string option) \<Rightarrow> ('f, 'z) python_scheme
     \<Rightarrow> ('f, 'f base) entorno" where
  "entorno_tx rechaza py =
     \<lparr>py_int = py_int py, py_float = py_float py, str_float = str_float py,
      execute = execute_tx rechaza, commit = commit_tx,
      format_exc = (\<lambda>e. ''Traceback (most recent call last): '' @ str_exc e),
      now = (\<lambda>n. \<lparr>year = 2024, month = 3, day = 5, hour = 12, minute = 0, second = n,
                    microsecond = 0\<rparr>)\<rparr>"

definition python_ejemplo :: "unit python" where
  \<comment> \<open>an \<open>int\<close> that knows the numerals 1, 2, 3, 7 and -5, and a \<open>float\<close> that knows
      none\<close>
  "python_ejemplo =
     \<lparr>py_int = (\<lambda>s. if s = ''1'' then Some 1 else if s = ''2'' then Some 2
                     else if s = ''3'' then Some 3 else if s = ''7'' then Some 7
                     else if s = ''-5'' then Some (- 5) else None),
      py_float = (\<lambda>s. None), str_float = (\<lambda>x. [])\<rparr>"

definition acepta_todo :: "unit base \<Rightarrow> string \<Rightarrow> unit valor list \<Rightarrow> string option" where
  "acepta_todo b sentencia params = None"

definition rechaza_negativos :: "unit base \<Rightarrow> string \<Rightarrow> unit valor list \<Rightarrow> string option" where
  \<comment> \<open>a check constraint: the first parameter must not be a negative integer\<close>
  "rechaza_negativos b sentencia params =
     (case params of
        VInt n # _ \<Rightarrow> if n < 0 then Some ''CHECK constraint'' else None
      | _ \<Rightarrow> None)"

definition cursor_vacio :: "(unit, unit base) cursor" where
  "cursor_vacio = \<lparr>db = \<lparr>confirmadas = [], pendientes = []\<rparr>, llamadas = []\<rparr>"

definition fila_de :: "(string \<times> 'f valor option) list \<Rightarrow> string \<Rightarrow> 'f valor option" where
  \<comment> \<open>a row given by its cells; a label outside the list has a missing cell\<close>
  "fila_de celdas col = (case map_of celdas col of Some v \<Rightarrow> v | None \<Rightarrow> None)"

definition contiene :: "string \<Rightarrow> string \<Rightarrow> bool" where
  \<comment> \<open>\<open>sub in s\<close>\<close>
  "contiene sub s = list_ex (\<lambda>k. take (length sub) (drop k s) = sub) [0..<Suc (length s)]"

definition entorno_ejemplo :: "(unit, unit base) entorno" where
  "entorno_ejemplo = entorno_tx acepta_todo python_ejemplo"

definition entorno_estricto :: "(unit, unit base) entorno" where
  "entorno_estricto = entorno_tx rechaza_negativos python_ejemplo"

definition frame_ejemplo :: "unit dataframe" where
  "frame_ejemplo =
     \<lparr>columns = [''name'', ''id''],
      iterrows = RangeIndex
        [fila_de [(''id'', Some (VInt 1)), (''name'', Some (VStr ''Ana''))],
         fila_de [(''id'', None), (''name'', Some (VStr ''Luis''))],
         fila_de [(''id'', Some (VInt 3)), (''name'', Some (VStr ''Eva''))]]\<rparr>"

definition esquema_ejemplo :: "(string \<times> string) list" where
  "esquema_ejemplo = [(''id'', ''int''), (''activo'', ''BIT''), (''BI_EJECUCION'', ''datetime'')]"







section \<open>Field validation: the type \<open>bit\<close>\<close>

text \<open>
  C6, as amended. For a column of type \<open>bit\<close> the validation maps the inputs whose
  lower-case form is \<open>1\<close>, \<open>true\<close>, \<open>s\<iacute>\<close> or \<open>si\<close> to 1, those whose lower-case form is
  \<open>0\<close>, \<open>false\<close> or \<open>no\<close> to 0, and raises \<open>ValueError\<close> for every other input. The message
  of that error is "Debe ingresar 1/0 o true/false": it names the literals 1, 0, true and
  false, and not the accepted literals \<open>s\<iacute>\<close>, \<open>si\<close> and \<open>no\<close>.
\<close>

theorem validar_bit:
  "validar py ''bit'' entrada =
     (if lower entrada = ''1'' \<or> lower entrada = ''true'' \<or> lower entrada = si_acentuado
         \<or> lower entrada = ''si'' then Inr (VInt 1)
      else if lower entrada = ''0'' \<or> lower entrada = ''false'' \<or> lower entrada = ''no''
      then Inr (VInt 0)
      else Inl (Lanzada (ValueError ''Debe ingresar 1/0 o true/false'')))"
  by (simp add: validar_def mensaje_bit_def)

text \<open>
  The accepted literals in several spellings, and \<open>yes\<close>, which is refused.
\<close>

theorem validar_bit_witness:
  "validar python_ejemplo ''bit'' ''TRUE'' = Inr (VInt 1) \<and>
   validar python_ejemplo ''bit'' [CHR ''S'', CHR 0xCD] = Inr (VInt 1) \<and>
   validar python_ejemplo ''bit'' ''Si'' = Inr (VInt 1) \<and>
   validar python_ejemplo ''bit'' ''1'' = Inr (VInt 1) \<and>
   validar python_ejemplo ''bit'' ''No'' = Inr (VInt 0) \<and>
   validar python_ejemplo ''bit'' ''FALSE'' = Inr (VInt 0) \<and>
   validar python_ejemplo ''bit'' ''0'' = Inr (VInt 0) \<and>
   validar python_ejemplo ''bit'' ''yes'' =
     Inl (Lanzada (ValueError ''Debe ingresar 1/0 o true/false''))"
  using validar_bit [of python_ejemplo]
  by (simp add: lower_def lower_char_def char_of_def bit_iff_odd si_acentuado_def)

text \<open>
  C6 as stated fails: the message raised for \<open>yes\<close> contains none of the accepted
  literals \<open>si\<close>, \<open>s\<iacute>\<close> and \<open>no\<close>.
\<close>

theorem mensaje_bit_counterexample:
  "validar python_ejemplo ''bit'' ''yes'' = Inl (Lanzada (ValueError mensaje_bit)) \<and>
   mensaje_bit = ''Debe ingresar 1/0 o true/false'' \<and>
   \<not> contiene ''si'' mensaje_bit \<and> \<not> contiene si_acentuado mensaje_bit \<and>
   \<not> contiene ''no'' mensaje_bit"
  by (simp add: validar_def lower_def lower_char_def char_of_def bit_iff_odd si_acentuado_def
        mensaje_bit_def contiene_def upt_rec)


section \<open>Shared facts about the two loops\<close>

text \<open>
  An invariant of the manual loop: what holds of the loop's variables before the first
  attempt and is kept by one attempt holds when the loop ends.
\<close>

lemma bucle_manual_invariante:
  assumes run: "bucle_manual env esq t ent st = Inr st'"
    and ini: "P st"
    and paso: "\<And>s ent fila d resto n ms. P s \<Longrightarrow>
       construir_fila env esq (map fst esq) ([], Map.empty) ent (lecturas s)
         (impreso s @ [IngresoDatos]) = Some (fila, d, resto, n, ms) \<Longrightarrow>
       P (insertar_fila env t (map fst esq) fila d
            (s\<lparr>lecturas := n, impreso := ms, attempt_counter := attempt_counter s + 1\<rparr>))"
  shows "P st'"
  using run ini paso
proof (induction env esq t ent st rule: bucle_manual.induct)
  case (1 env esquema nombre_tabla entradas st)
  note paso' = "1.prems"(3)
  let ?cf = "construir_fila env esquema (map fst esquema) ([], Map.empty) entradas
               (lecturas st) (impreso st @ [IngresoDatos])"
  from "1.prems"(1) obtain fila d resto n ms where cf: "?cf = Some (fila, d, resto, n, ms)"
    by (subst (asm) bucle_manual.simps) (auto split: option.splits)
  define st1 where "st1 = insertar_fila env nombre_tabla (map fst esquema) fila d
     (st\<lparr>lecturas := n, impreso := ms, attempt_counter := attempt_counter st + 1\<rparr>)"
  have P1: "P st1" unfolding st1_def using "1.prems"(2) cf by (rule paso')
  show ?case
  proof (cases resto)
    case Nil
    with "1.prems"(1) cf show ?thesis
      by (subst (asm) bucle_manual.simps) simp
  next
    case (Cons l ls)
    show ?thesis
    proof (cases "lower (strip l) = ''s''")
      case False
      with "1.prems"(1) cf Cons have "st' = st1"
        by (subst (asm) bucle_manual.simps) (simp add: st1_def Let_def)
      with P1 show ?thesis by simp
    next
      case True
      with "1.prems"(1) cf Cons have r: "bucle_manual env esquema nombre_tabla ls st1 = Inr st'"
        by (subst (asm) bucle_manual.simps) (simp add: st1_def Let_def)
      from True have nn: "\<not> lower (strip l) \<noteq> ''s''" by simp
      show ?thesis
        by (rule "1.IH" [OF cf refl refl refl refl Cons st1_def nn r P1 paso'])
    qed
  qed
qed

text \<open>How a run unfolds: the file is accepted, the manual loop goes on or stops.\<close>

lemma carga_por_archivo_acepta:
  "columnas_faltantes cs (columns df) = [] \<Longrightarrow> columnas_sobrantes cs (columns df) = [] \<Longrightarrow>
     final (carga_por_archivo env c bd t a df cs) =
       Some (bucle_filas env t (sin_ejecucion cs) (iterrows df)
               \<lparr>cur = c, errores = [], filas_procesadas = 0, filas_cargadas = 0\<rparr>)"
  by (simp add: carga_por_archivo_def Let_def)

lemma bucle_manual_ultima:
  assumes "construir_fila env esq (map fst esq) ([], Map.empty) ent (lecturas st)
             (impreso st @ [IngresoDatos]) = Some (fila, d, l # ls, n, ms)"
    and "lower (strip l) \<noteq> ''s''"
  shows "bucle_manual env esq t ent st =
           Inr (insertar_fila env t (map fst esq) fila d
                  (st\<lparr>lecturas := n, impreso := ms, attempt_counter := attempt_counter st + 1\<rparr>))"
  using assms by (subst bucle_manual.simps) (simp add: Let_def)

lemma bucle_manual_sigue:
  assumes "construir_fila env esq (map fst esq) ([], Map.empty) ent (lecturas st)
             (impreso st @ [IngresoDatos]) = Some (fila, d, l # ls, n, ms)"
    and "lower (strip l) = ''s''"
  shows "bucle_manual env esq t ent st =
           bucle_manual env esq t ls (insertar_fila env t (map fst esq) fila d
                  (st\<lparr>lecturas := n, impreso := ms, attempt_counter := attempt_counter st + 1\<rparr>))"
  using assms by (subst bucle_manual.simps) (simp add: Let_def)

lemma carga_manual_Inr:
  "bucle_manual env esq t ent
     \<lparr>cur = c, errores = [], lecturas = 1, impreso = [], attempt_counter = 0,
      filas_insertadas = 0, filas_insertadas_data = []\<rparr> = Inr st \<Longrightarrow>
   \<exists>r. carga_manual env c bd t esq ent = Inr r \<and> final r = Some st"
  by (simp add: carga_manual_def Let_def)

lemma entorno_tx_sel:
  "py_int (entorno_tx rechaza py) = py_int py"
  "py_float (entorno_tx rechaza py) = py_float py"
  "str_float (entorno_tx rechaza py) = str_float py"
  "execute (entorno_tx rechaza py) = execute_tx rechaza"
  "commit (entorno_tx rechaza py) = commit_tx"
  by (simp_all add: entorno_tx_def)

lemmas ev_cadenas = lower_def lower_char_def isspace_def strip_def char_of_def bit_iff_odd

section \<open>Counters\<close>

lemma paso_fila_procesadas:
  "filas_procesadas (paso_fila env t cols r st) = Suc (filas_procesadas st)"
  by (simp add: paso_fila_def Let_def split: prod.splits option.splits)

lemma paso_fila_suma:
  "filas_cargadas (paso_fila env t cols r st) + length (errores (paso_fila env t cols r st))
     = Suc (filas_cargadas st + length (errores st))"
  by (simp add: paso_fila_def Let_def split: prod.splits option.splits)

lemma bucle_filas_procesadas:
  "filas_procesadas (bucle_filas env t cols rs st) = filas_procesadas st + length rs"
  by (induction rs arbitrary: st) (simp_all add: paso_fila_procesadas)

lemma bucle_filas_suma:
  "filas_cargadas (bucle_filas env t cols rs st) + length (errores (bucle_filas env t cols rs st))
     = filas_cargadas st + length (errores st) + length rs"
  by (induction rs arbitrary: st) (simp_all add: paso_fila_suma)

lemma final_archivo:
  "final (carga_por_archivo env c bd t a df cs) = Some st \<Longrightarrow>
     st = bucle_filas env t (sin_ejecucion cs) (iterrows df)
            \<lparr>cur = c, errores = [], filas_procesadas = 0, filas_cargadas = 0\<rparr>"
  by (auto simp: carga_por_archivo_def Let_def split: if_splits)

lemma insertar_fila_suma:
  "filas_insertadas (insertar_fila env t cols fila d st) + length (errores (insertar_fila env t cols fila d st))
     = Suc (filas_insertadas st + length (errores st))"
  by (simp add: insertar_fila_def split: prod.splits option.splits)

lemma insertar_fila_attempt:
  "attempt_counter (insertar_fila env t cols fila d st) = attempt_counter st"
  by (simp add: insertar_fila_def split: prod.splits option.splits)

lemma final_manual:
  "carga_manual env c bd t esq ent = Inr r \<Longrightarrow>
     \<exists>st. final r = Some st \<and> cursor_final r = cur st \<and>
       bucle_manual env esq t ent
         \<lparr>cur = c, errores = [], lecturas = 1, impreso = [], attempt_counter = 0,
          filas_insertadas = 0, filas_insertadas_data = []\<rparr> = Inr st"
  by (auto simp: carga_manual_def Let_def split: sum.splits)

text \<open>
  C1. When the load from a file reaches its loop, the rows processed are the rows
  loaded plus the rows recorded as errors, and that sum is the number of rows of the
  source: no row is dropped. When the manual load returns, the attempts are the rows
  inserted plus the errors recorded.
\<close>

theorem contadores_cuadran:
  "(final (carga_por_archivo env c nombre_bd nombre_tabla archivo df columnas_sql) = Some st \<longrightarrow>
      filas_procesadas st = filas_cargadas st + length (errores st) \<and>
      filas_cargadas st + length (errores st) = length (iterrows df)) \<and>
   (carga_manual env' c' nombre_bd' nombre_tabla' esquema entradas = Inr r \<longrightarrow>
      (\<exists>st'. final r = Some st' \<and>
         attempt_counter st' = filas_insertadas st' + length (errores st')))"
proof (intro conjI impI)
  assume "final (carga_por_archivo env c nombre_bd nombre_tabla archivo df columnas_sql) = Some st"
  then have st: "st = bucle_filas env nombre_tabla (sin_ejecucion columnas_sql) (iterrows df)
            \<lparr>cur = c, errores = [], filas_procesadas = 0, filas_cargadas = 0\<rparr>"
    by (rule final_archivo)
  show "filas_cargadas st + length (errores st) = length (iterrows df)"
    unfolding st by (simp add: bucle_filas_suma)
  then show "filas_procesadas st = filas_cargadas st + length (errores st)"
    unfolding st by (simp add: bucle_filas_procesadas)
next
  assume "carga_manual env' c' nombre_bd' nombre_tabla' esquema entradas = Inr r"
  from final_manual [OF this] obtain st' where f: "final r = Some st'"
    and b: "bucle_manual env' esquema nombre_tabla' entradas
         \<lparr>cur = c', errores = [], lecturas = 1, impreso = [], attempt_counter = 0,
          filas_insertadas = 0, filas_insertadas_data = []\<rparr> = Inr st'"
    by blast
  have "attempt_counter st' = filas_insertadas st' + length (errores st')"
    by (rule bucle_manual_invariante [OF b])
       (simp_all add: insertar_fila_suma insertar_fila_attempt)
  with f show "\<exists>st'. final r = Some st' \<and>
         attempt_counter st' = filas_insertadas st' + length (errores st')"
    by blast
qed

text \<open>
  A file of three rows whose second row has a blank field, and a manual session of one
  row.
\<close>

theorem contadores_cuadran_witness:
  "(\<exists>st. final (carga_por_archivo entorno_ejemplo cursor_vacio ''bd'' ''T'' ''datos.csv''
                 frame_ejemplo [''id'', ''name'', ''Bi_ejecucion'']) = Some st \<and>
         filas_procesadas st = filas_cargadas st + length (errores st) \<and>
         filas_cargadas st + length (errores st) = 3) \<and>
   (\<exists>r st. carga_manual entorno_estricto cursor_vacio ''bd'' ''T'' esquema_ejemplo
               [''7'', ''SI'', ''n''] = Inr r \<and> final r = Some st \<and>
         attempt_counter st = filas_insertadas st + length (errores st))"
proof -
  let ?R = "carga_por_archivo entorno_ejemplo cursor_vacio ''bd'' ''T'' ''datos.csv''
              frame_ejemplo [''id'', ''name'', ''Bi_ejecucion'']"
  have "columnas_faltantes [''id'', ''name'', ''Bi_ejecucion''] (columns frame_ejemplo) = []"
    "columnas_sobrantes [''id'', ''name'', ''Bi_ejecucion''] (columns frame_ejemplo) = []"
    by (simp_all add: columnas_faltantes_def columnas_sobrantes_def sin_ejecucion_def
          frame_ejemplo_def ev_cadenas)
  from carga_por_archivo_acepta [OF this] obtain st where st: "final ?R = Some st"
    by blast
  have n: "length (iterrows frame_ejemplo) = 3"
    by (simp add: frame_ejemplo_def RangeIndex_def)
  have "\<exists>fila d n ms. construir_fila entorno_estricto esquema_ejemplo (map fst esquema_ejemplo)
              ([], Map.empty) [''7'', ''SI'', ''n'']
              (lecturas \<lparr>cur = cursor_vacio, errores = [], lecturas = 1, impreso = [],
                 attempt_counter = 0, filas_insertadas = 0, filas_insertadas_data = []\<rparr>)
              (impreso \<lparr>cur = cursor_vacio, errores = [], lecturas = 1, impreso = [],
                 attempt_counter = 0, filas_insertadas = 0, filas_insertadas_data = []\<rparr>
               @ [IngresoDatos]) =
            Some (fila, d, ''n'' # [], n, ms)"
    by (simp add: esquema_ejemplo_def tipos_def validar_def ev_cadenas Let_def
          si_acentuado_def entorno_estricto_def entorno_tx_sel python_ejemplo_def)
  then obtain fila d n ms where cf: "construir_fila entorno_estricto esquema_ejemplo
              (map fst esquema_ejemplo) ([], Map.empty) [''7'', ''SI'', ''n'']
              (lecturas \<lparr>cur = cursor_vacio, errores = [], lecturas = 1, impreso = [],
                 attempt_counter = 0, filas_insertadas = 0, filas_insertadas_data = []\<rparr>)
              (impreso \<lparr>cur = cursor_vacio, errores = [], lecturas = 1, impreso = [],
                 attempt_counter = 0, filas_insertadas = 0, filas_insertadas_data = []\<rparr>
               @ [IngresoDatos]) =
            Some (fila, d, ''n'' # [], n, ms)"
    by blast
  have "lower (strip ''n'') \<noteq> ''s''"
    by (simp add: ev_cadenas)
  from bucle_manual_ultima [OF cf this]
  have "\<exists>st. bucle_manual entorno_estricto esquema_ejemplo ''T'' [''7'', ''SI'', ''n'']
     \<lparr>cur = cursor_vacio, errores = [], lecturas = 1, impreso = [], attempt_counter = 0,
      filas_insertadas = 0, filas_insertadas_data = []\<rparr> = Inr st"
    by blast
  then obtain r st' where m: "carga_manual entorno_estricto cursor_vacio ''bd'' ''T''
       esquema_ejemplo [''7'', ''SI'', ''n''] = Inr r" "final r = Some st'"
    using carga_manual_Inr by blast
  from contadores_cuadran [of entorno_ejemplo cursor_vacio "''bd''" "''T''" "''datos.csv''"
      frame_ejemplo "[''id'', ''name'', ''Bi_ejecucion'']" st
      entorno_estricto cursor_vacio "''bd''" "''T''" esquema_ejemplo "[''7'', ''SI'', ''n'']" r]
    st m n
  show ?thesis by auto
qed


section \<open>Column reconciliation\<close>

lemma sin_faltantes_sobrantes:
  "(columnas_faltantes cs ca = [] \<and> columnas_sobrantes cs ca = []) =
     (set ca = set (sin_ejecucion cs))"
  by (auto simp: columnas_faltantes_def columnas_sobrantes_def filter_empty_conv)

text \<open>
  C2. The load from a file goes on to its loop if and only if the set of the file's
  column names equals, letter for letter, the set of the table's column names without
  the execution column. Otherwise it prints the columns the file lacks and the columns
  the table does not have as two lists, each under its own heading, writes no log file
  and returns with the cursor untouched: no row is attempted.
\<close>

theorem reconciliacion:
  "(final (carga_por_archivo env c nombre_bd nombre_tabla archivo df columnas_sql) \<noteq> None) =
     (set (columns df) = set (sin_ejecucion columnas_sql)) \<and>
   (final (carga_por_archivo env c nombre_bd nombre_tabla archivo df columnas_sql) = None \<longrightarrow>
      consola (carga_por_archivo env c nombre_bd nombre_tabla archivo df columnas_sql) =
        [NoCoinciden] @
        (if columnas_faltantes columnas_sql (columns df) \<noteq> []
         then FaltanEnArchivo # map Item (columnas_faltantes columnas_sql (columns df)) else []) @
        (if columnas_sobrantes columnas_sql (columns df) \<noteq> []
         then NoExistenEnTabla # map Item (columnas_sobrantes columnas_sql (columns df)) else []) @
        [CorrijaArchivo] \<and>
      archivos (carga_por_archivo env c nombre_bd nombre_tabla archivo df columnas_sql) = [] \<and>
      cursor_final (carga_por_archivo env c nombre_bd nombre_tabla archivo df columnas_sql) = c) \<and>
   set (columnas_faltantes columnas_sql (columns df)) =
     set (sin_ejecucion columnas_sql) - set (columns df) \<and>
   set (columnas_sobrantes columnas_sql (columns df)) =
     set (columns df) - set (sin_ejecucion columnas_sql)"
proof (intro conjI impI)
  let ?R = "carga_por_archivo env c nombre_bd nombre_tabla archivo df columnas_sql"
  have a: "(final ?R \<noteq> None) =
     (columnas_faltantes columnas_sql (columns df) = [] \<and>
      columnas_sobrantes columnas_sql (columns df) = [])"
    by (simp add: carga_por_archivo_def Let_def)
  then show "(final ?R \<noteq> None) = (set (columns df) = set (sin_ejecucion columnas_sql))"
    by (simp only: sin_faltantes_sobrantes)
  show "set (columnas_faltantes columnas_sql (columns df)) =
     set (sin_ejecucion columnas_sql) - set (columns df)"
    by (auto simp: columnas_faltantes_def)
  show "set (columnas_sobrantes columnas_sql (columns df)) =
     set (columns df) - set (sin_ejecucion columnas_sql)"
    by (auto simp: columnas_sobrantes_def)
  assume n: "final ?R = None"
  with a have b: "columnas_faltantes columnas_sql (columns df) \<noteq> [] \<or>
      columnas_sobrantes columnas_sql (columns df) \<noteq> []"
    by auto
  then show "archivos ?R = []" and "cursor_final ?R = c"
    by (auto simp: carga_por_archivo_def Let_def)
  from b show "consola ?R =
        [NoCoinciden] @
        (if columnas_faltantes columnas_sql (columns df) \<noteq> []
         then FaltanEnArchivo # map Item (columnas_faltantes columnas_sql (columns df)) else []) @
        (if columnas_sobrantes columnas_sql (columns df) \<noteq> []
         then NoExistenEnTabla # map Item (columnas_sobrantes columnas_sql (columns df)) else []) @
        [CorrijaArchivo]"
    by (auto simp: carga_por_archivo_def Let_def aviso_columnas_def)
qed

text \<open>
  A file with an extra column, a file that lacks a column, a file with the table's
  columns in another order, and a file whose column differs in case only.
\<close>

theorem reconciliacion_witness:
  "final (carga_por_archivo entorno_ejemplo cursor_vacio ''bd'' ''T'' ''datos.csv''
      \<lparr>columns = [''id'', ''name'', ''extra''], iterrows = RangeIndex [fila_de []]\<rparr>
      [''id'', ''name'', ''BI_EJECUCION'']) = None \<and>
   consola (carga_por_archivo entorno_ejemplo cursor_vacio ''bd'' ''T'' ''datos.csv''
      \<lparr>columns = [''id'', ''name'', ''extra''], iterrows = RangeIndex [fila_de []]\<rparr>
      [''id'', ''name'', ''BI_EJECUCION'']) =
     [NoCoinciden, NoExistenEnTabla, Item ''extra'', CorrijaArchivo] \<and>
   archivos (carga_por_archivo entorno_ejemplo cursor_vacio ''bd'' ''T'' ''datos.csv''
      \<lparr>columns = [''id'', ''name'', ''extra''], iterrows = RangeIndex [fila_de []]\<rparr>
      [''id'', ''name'', ''BI_EJECUCION'']) = [] \<and>
   cursor_final (carga_por_archivo entorno_ejemplo cursor_vacio ''bd'' ''T'' ''datos.csv''
      \<lparr>columns = [''id'', ''name'', ''extra''], iterrows = RangeIndex [fila_de []]\<rparr>
      [''id'', ''name'', ''BI_EJECUCION'']) = cursor_vacio \<and>
   consola (carga_por_archivo entorno_ejemplo cursor_vacio ''bd'' ''T'' ''datos.csv''
      \<lparr>columns = [''B'', ''A''], iterrows = RangeIndex [fila_de []]\<rparr>
      [''A'', ''B'', ''C'']) =
     [NoCoinciden, FaltanEnArchivo, Item ''C'', CorrijaArchivo] \<and>
   final (carga_por_archivo entorno_ejemplo cursor_vacio ''bd'' ''T'' ''datos.csv''
      \<lparr>columns = [''C'', ''A'', ''B''], iterrows = []\<rparr> [''A'', ''B'', ''C'']) \<noteq> None \<and>
   final (carga_por_archivo entorno_ejemplo cursor_vacio ''bd'' ''T'' ''datos.csv''
      \<lparr>columns = [''a'', ''B'', ''C''], iterrows = []\<rparr> [''A'', ''B'', ''C'']) = None"
proof -
  have s1: "sin_ejecucion [''id'', ''name'', ''BI_EJECUCION''] = [''id'', ''name'']"
    and s2: "sin_ejecucion [''A'', ''B'', ''C''] = [''A'', ''B'', ''C'']"
    by (simp_all add: sin_ejecucion_def ev_cadenas)
  note r1 = reconciliacion [of entorno_ejemplo cursor_vacio "''bd''" "''T''" "''datos.csv''"
      "\<lparr>columns = [''id'', ''name'', ''extra''], iterrows = RangeIndex [fila_de []]\<rparr>"
      "[''id'', ''name'', ''BI_EJECUCION'']"]
  note r2 = reconciliacion [of entorno_ejemplo cursor_vacio "''bd''" "''T''" "''datos.csv''"
      "\<lparr>columns = [''B'', ''A''], iterrows = RangeIndex [fila_de []]\<rparr>" "[''A'', ''B'', ''C'']"]
  note r3 = reconciliacion [of entorno_ejemplo cursor_vacio "''bd''" "''T''" "''datos.csv''"
      "\<lparr>columns = [''C'', ''A'', ''B''], iterrows = []\<rparr>" "[''A'', ''B'', ''C'']"]
  note r4 = reconciliacion [of entorno_ejemplo cursor_vacio "''bd''" "''T''" "''datos.csv''"
      "\<lparr>columns = [''a'', ''B'', ''C''], iterrows = []\<rparr>" "[''A'', ''B'', ''C'']"]
  have d1: "set (columns \<lparr>columns = [''id'', ''name'', ''extra''],
                 iterrows = RangeIndex [fila_de []] :: (int \<times> (string \<Rightarrow> unit valor option)) list\<rparr>)
             \<noteq> set [''id'', ''name'']"
  proof -
    have "''extra'' \<in> set [''id'', ''name'', ''extra'']" "''extra'' \<notin> set [''id'', ''name'']"
      by simp_all
    then show ?thesis by (simp only: dataframe.simps) blast
  qed
  have d2: "set (columns \<lparr>columns = [''B'', ''A''],
                 iterrows = RangeIndex [fila_de []] :: (int \<times> (string \<Rightarrow> unit valor option)) list\<rparr>)
             \<noteq> set [''A'', ''B'', ''C'']"
  proof -
    have "''C'' \<notin> set [''B'', ''A'']" "''C'' \<in> set [''A'', ''B'', ''C'']"
      by simp_all
    then show ?thesis by (simp only: dataframe.simps) blast
  qed
  have d3: "set (columns \<lparr>columns = [''C'', ''A'', ''B''],
                 iterrows = [] :: (int \<times> (string \<Rightarrow> unit valor option)) list\<rparr>)
             = set [''A'', ''B'', ''C'']"
    by auto
  have d4: "set (columns \<lparr>columns = [''a'', ''B'', ''C''],
                 iterrows = [] :: (int \<times> (string \<Rightarrow> unit valor option)) list\<rparr>)
             \<noteq> set [''A'', ''B'', ''C'']"
  proof -
    have "''a'' \<in> set [''a'', ''B'', ''C'']" "''a'' \<notin> set [''A'', ''B'', ''C'']"
      by simp_all
    then show ?thesis by (simp only: dataframe.simps) blast
  qed
  have n1: "final (carga_por_archivo entorno_ejemplo cursor_vacio ''bd'' ''T'' ''datos.csv''
      \<lparr>columns = [''id'', ''name'', ''extra''], iterrows = RangeIndex [fila_de []]\<rparr>
      [''id'', ''name'', ''BI_EJECUCION'']) = None"
    using r1 d1 unfolding s1 by blast
  have n2: "final (carga_por_archivo entorno_ejemplo cursor_vacio ''bd'' ''T'' ''datos.csv''
      \<lparr>columns = [''B'', ''A''], iterrows = RangeIndex [fila_de []]\<rparr>
      [''A'', ''B'', ''C'']) = None"
    using r2 d2 unfolding s2 by blast
  have n3: "final (carga_por_archivo entorno_ejemplo cursor_vacio ''bd'' ''T'' ''datos.csv''
      \<lparr>columns = [''C'', ''A'', ''B''], iterrows = []\<rparr> [''A'', ''B'', ''C'']) \<noteq> None"
    using r3 d3 unfolding s2 by blast
  have n4: "final (carga_por_archivo entorno_ejemplo cursor_vacio ''bd'' ''T'' ''datos.csv''
      \<lparr>columns = [''a'', ''B'', ''C''], iterrows = []\<rparr> [''A'', ''B'', ''C'']) = None"
    using r4 d4 unfolding s2 by blast
  from r1 n1 have c1: "consola (carga_por_archivo entorno_ejemplo cursor_vacio ''bd'' ''T'' ''datos.csv''
      \<lparr>columns = [''id'', ''name'', ''extra''], iterrows = RangeIndex [fila_de []]\<rparr>
      [''id'', ''name'', ''BI_EJECUCION'']) =
     [NoCoinciden, NoExistenEnTabla, Item ''extra'', CorrijaArchivo]"
    by (simp add: s1 columnas_faltantes_def columnas_sobrantes_def)
  from r2 n2 have c2: "consola (carga_por_archivo entorno_ejemplo cursor_vacio ''bd'' ''T'' ''datos.csv''
      \<lparr>columns = [''B'', ''A''], iterrows = RangeIndex [fila_de []]\<rparr>
      [''A'', ''B'', ''C'']) =
     [NoCoinciden, FaltanEnArchivo, Item ''C'', CorrijaArchivo]"
    by (simp add: s2 columnas_faltantes_def columnas_sobrantes_def)
  from r1 n1 n2 n3 n4 c1 c2 show ?thesis
    by blast
qed


section \<open>Field validation: dates\<close>
























section \<open>The execution column under any spelling\<close>

lemma lower_Bi_ejecucion: "lower ''Bi_ejecucion'' = ''bi_ejecucion''"
  by (simp add: ev_cadenas)

lemma sin_ejecucion_append:
  "sin_ejecucion (xs @ ys) = sin_ejecucion xs @ sin_ejecucion ys"
  by (simp add: sin_ejecucion_def)

lemma sin_ejecucion_quita:
  "lower col = ''bi_ejecucion'' \<Longrightarrow> sin_ejecucion (xs @ col # ys) = sin_ejecucion (xs @ ys)"
  by (simp add: sin_ejecucion_def)

lemma carga_por_archivo_sin_ejecucion:
  "sin_ejecucion cs = sin_ejecucion cs' \<Longrightarrow>
     carga_por_archivo env c bd t a df cs = carga_por_archivo env c bd t a df cs'"
  by (simp add: carga_por_archivo_def columnas_faltantes_def columnas_sobrantes_def)

text \<open>
  C10. A column is the execution column when its name in lower case is
  \<open>bi_ejecucion\<close>, whatever the case of its letters. In the load from a file such a
  column is not among the columns asked of the file, and the whole run is the run for
  the table that spells it \<open>Bi_ejecucion\<close>. In the manual load no input is read for
  it: the row receives the value computed from the clock, and the fields that follow
  are asked from the same input.
\<close>

theorem ejecucion_sin_mayusculas:
  "lower col = ''bi_ejecucion'' \<Longrightarrow>
     col \<notin> set (sin_ejecucion columnas_sql) \<and>
     carga_por_archivo env c nombre_bd nombre_tabla archivo df (xs @ col # ys) =
       carga_por_archivo env c nombre_bd nombre_tabla archivo df (xs @ ''Bi_ejecucion'' # ys) \<and>
     construir_fila env' esquema (col # cols) acc entradas n ms =
       construir_fila env' esquema cols
         (fst acc @ [valor_ejecucion (lower (tipos esquema col)) (now env' n)],
          (snd acc)(col \<mapsto> OStr (str_valor env'
             (valor_ejecucion (lower (tipos esquema col)) (now env' n)))))
         entradas (n + 1) ms"
proof (intro conjI)
  assume l: "lower col = ''bi_ejecucion''"
  then show "col \<notin> set (sin_ejecucion columnas_sql)"
    by (simp add: sin_ejecucion_def)
  have "sin_ejecucion (xs @ col # ys) = sin_ejecucion (xs @ ''Bi_ejecucion'' # ys)"
    by (simp only: sin_ejecucion_quita [OF l] sin_ejecucion_quita [OF lower_Bi_ejecucion])
  then show "carga_por_archivo env c nombre_bd nombre_tabla archivo df (xs @ col # ys) =
       carga_por_archivo env c nombre_bd nombre_tabla archivo df (xs @ ''Bi_ejecucion'' # ys)"
    by (rule carga_por_archivo_sin_ejecucion)
  from l show "construir_fila env' esquema (col # cols) acc entradas n ms =
       construir_fila env' esquema cols
         (fst acc @ [valor_ejecucion (lower (tipos esquema col)) (now env' n)],
          (snd acc)(col \<mapsto> OStr (str_valor env'
             (valor_ejecucion (lower (tipos esquema col)) (now env' n)))))
         entradas (n + 1) ms"
    by (simp add: Let_def)
qed

text \<open>
  The column spelled \<open>BI_EJECUCION\<close>: it is filled with the reading of the clock
  while the input is empty.
\<close>

theorem ejecucion_sin_mayusculas_witness:
  "lower ''BI_EJECUCION'' = ''bi_ejecucion'' \<and>
   ''BI_EJECUCION'' \<notin> set (sin_ejecucion [''id'', ''BI_EJECUCION'', ''name'']) \<and>
   carga_por_archivo entorno_ejemplo cursor_vacio ''bd'' ''T'' ''datos.csv'' frame_ejemplo
       ([''id''] @ ''BI_EJECUCION'' # [''name'']) =
     carga_por_archivo entorno_ejemplo cursor_vacio ''bd'' ''T'' ''datos.csv'' frame_ejemplo
       ([''id''] @ ''Bi_ejecucion'' # [''name'']) \<and>
   map_option (\<lambda>(fila, d, resto, n, ms). (fila, resto, n, ms))
     (construir_fila entorno_ejemplo esquema_ejemplo [''BI_EJECUCION''] ([], Map.empty) [] 1 []) =
     Some ([VDateTime (now entorno_ejemplo 1)], [], 2, [])"
proof -
  have l: "lower ''BI_EJECUCION'' = ''bi_ejecucion''"
    by (simp add: ev_cadenas)
  have t: "lower (tipos esquema_ejemplo ''BI_EJECUCION'') = ''datetime''"
    by (simp add: tipos_def esquema_ejemplo_def ev_cadenas)
  from ejecucion_sin_mayusculas [OF l, of "[''id'', ''BI_EJECUCION'', ''name'']"
      entorno_ejemplo cursor_vacio "''bd''" "''T''" "''datos.csv''" frame_ejemplo
      "[''id'']" "[''name'']" entorno_ejemplo esquema_ejemplo "[]" "([], Map.empty)" "[]" 1 "[]"]
  show ?thesis
    by (simp add: l t valor_ejecucion_def)
qed


section \<open>One commit for each row\<close>




























section \<open>The execution column in the two loads\<close>











end
